theory Spec2Isabelle
  imports Main
begin

section \<open>Time, one-shot events and the runtime's \<open>select\<close>\<close>

text \<open>
  The handlers of the repository are written against Go's \<open>time\<close> and \<open>context\<close>
  packages, channels and \<open>select\<close>. Their behaviour is embedded over an ideal clock:
  a moment is a number of nanoseconds, a \<open>time.Duration\<close> is a signed number of
  nanoseconds, and a goroutine takes no time between two blocking operations.
  A blocking operation is a function from the moment it starts to the moment it
  proceeds; \<open>None\<close> means that it blocks forever.
\<close>

type_synonym time = int
type_synonym duration = int

definition Second :: duration where
  "Second = 1000000000"

text \<open>
  An event is what a channel receive waits for: the earliest moment at which the
  receive can proceed and the value it then yields, or \<open>None\<close> when no value ever
  arrives.
\<close>

type_synonym 'a event = "(time \<times> 'a) option"

text \<open>\<open>time.After(d)\<close>, called at \<open>now\<close>.\<close>

definition After :: "time \<Rightarrow> duration \<Rightarrow> unit event" where
  "After now d = Some (now + d, ())"

text \<open>
  A receive (or a \<open>select\<close> with one case) started at \<open>now\<close>: it proceeds as soon as
  the event is ready, at once when it was ready before.
\<close>

definition recv :: "time \<Rightarrow> 'a event \<Rightarrow> (time \<times> 'a) option" where
  "recv now e = (case e of None \<Rightarrow> None | Some (t, x) \<Rightarrow> Some (max now t, x))"

text \<open>
  A \<open>select\<close> with two receive cases, started at \<open>now\<close>. The case that is ready
  first proceeds. When both are ready at the same moment the Go runtime chooses one of
  them by a pseudo-random draw; the draw is the parameter \<open>tie\<close>. The result is the
  moment the \<open>select\<close> proceeds and the value of the chosen case (\<open>Inl\<close> for the case
  written first in the source, \<open>Inr\<close> for the second).
\<close>

datatype pick = Case1 | Case2

definition select2 ::
  "pick \<Rightarrow> time \<Rightarrow> 'a event \<Rightarrow> 'b event \<Rightarrow> (time \<times> ('a + 'b)) option" where
  "select2 tie now a b =
     (case recv now a of
        None \<Rightarrow> (case recv now b of None \<Rightarrow> None | Some (tb, y) \<Rightarrow> Some (tb, Inr y))
      | Some (ta, x) \<Rightarrow>
          (case recv now b of
             None \<Rightarrow> Some (ta, Inl x)
           | Some (tb, y) \<Rightarrow>
               if ta < tb then Some (ta, Inl x)
               else if tb < ta then Some (tb, Inr y)
               else (case tie of Case1 \<Rightarrow> Some (ta, Inl x) | Case2 \<Rightarrow> Some (tb, Inr y))))"

text \<open>
  A send on an unbuffered channel: the sender reaches the send at \<open>ready\<close> and
  proceeds only when a receiver takes the value; \<open>taken\<close> is the moment a receiver
  does, \<open>None\<close> when none ever does.
\<close>

definition unbuffered_send :: "time \<Rightarrow> time option \<Rightarrow> time option" where
  "unbuffered_send ready taken =
     (case taken of None \<Rightarrow> None | Some r \<Rightarrow> Some (max ready r))"

section \<open>The \<open>context\<close> package\<close>

text \<open>
  The two errors of the package, and a context seen from outside: the moment its
  \<open>Done\<close> channel is closed together with the error \<open>Err\<close> reports from then on, or
  \<open>None\<close> for a context that never fires.
\<close>

datatype ctx_err = Canceled | DeadlineExceeded

type_synonym ctx = "ctx_err event"

fun Error_string :: "ctx_err \<Rightarrow> string" where
  "Error_string Canceled = ''context canceled''"
| "Error_string DeadlineExceeded = ''context deadline exceeded''"

text \<open>\<open>context.Background()\<close>: no deadline, never canceled.\<close>

definition Background :: ctx where
  "Background = None"

text \<open>
  \<open>ctx.Done()\<close> as an event. The value a receive on it yields is the error that
  \<open>ctx.Err()\<close> reports once the channel is closed, so that the source's
  \<open>case <-ctx.Done(): ... ctx.Err()\<close> reads the error off the event.
\<close>

definition Done :: "ctx \<Rightarrow> ctx_err event" where
  "Done c = c"

text \<open>Whether the context has fired by \<open>now\<close>.\<close>

definition is_done :: "time \<Rightarrow> ctx \<Rightarrow> bool" where
  "is_done now c = (case c of None \<Rightarrow> False | Some (t, r) \<Rightarrow> t \<le> now)"

text \<open>
  A call of a context's cancel function at \<open>now\<close>: the context fires with
  \<open>Canceled\<close> unless it has fired already, in which case the call changes nothing.
\<close>

definition cancel :: "time \<Rightarrow> ctx \<Rightarrow> ctx" where
  "cancel now c = (if is_done now c then c else Some (now, Canceled))"

text \<open>
  \<open>context.WithCancel(parent)\<close> at \<open>now\<close>, before any call of its cancel function:
  the child fires when the parent does, with the parent's error, at once when the
  parent has fired already.
\<close>

definition WithCancel :: "ctx \<Rightarrow> time \<Rightarrow> ctx" where
  "WithCancel parent now =
     (case parent of None \<Rightarrow> None | Some (tp, rp) \<Rightarrow> Some (max now tp, rp))"

text \<open>
  \<open>context.WithTimeout(parent, d)\<close> at \<open>now\<close>, before any call of its cancel
  function. The deadline is \<open>now + d\<close>. A parent that has fired already cancels the
  child on construction with the parent's error; otherwise a deadline that has passed
  fires the child at once with \<open>DeadlineExceeded\<close>; otherwise the child fires at the
  earlier of the parent's firing and the deadline. When both fall on the same moment
  the error is the one the runtime delivers first: the parent's when \<open>parent_first\<close>.
\<close>

definition WithTimeout :: "bool \<Rightarrow> ctx \<Rightarrow> time \<Rightarrow> duration \<Rightarrow> ctx" where
  "WithTimeout parent_first parent now d =
     (case parent of
        None \<Rightarrow> Some (max now (now + d), DeadlineExceeded)
      | Some (tp, rp) \<Rightarrow>
          if tp \<le> now then Some (now, rp)
          else if tp < max now (now + d) then Some (tp, rp)
          else if max now (now + d) < tp then Some (max now (now + d), DeadlineExceeded)
          else Some (tp, if parent_first then rp else DeadlineExceeded))"

section \<open>Responses\<close>

text \<open>
  A value placed in a \<open>gin.H\<close>: \<open>nil\<close>, a string, a boolean, or the string that
  \<open>Duration.String\<close> renders for a duration. A response is one call of \<open>c.JSON\<close>:
  the status code and the fields in the order of the source.
\<close>

datatype jval = JNil | JStr string | JBool bool | JDurationString duration

record response =
  status :: nat
  body :: "(string \<times> jval) list"

definition JSON :: "nat \<Rightarrow> (string \<times> jval) list \<Rightarrow> response" where
  "JSON code h = \<lparr>status = code, body = h\<rparr>"

definition StatusOK :: nat where "StatusOK = 200"
definition StatusBadRequest :: nat where "StatusBadRequest = 400"
definition StatusNotFound :: nat where "StatusNotFound = 404"
definition StatusRequestTimeout :: nat where "StatusRequestTimeout = 408"
definition StatusInternalServerError :: nat where "StatusInternalServerError = 500"
definition StatusGatewayTimeout :: nat where "StatusGatewayTimeout = 504"

text \<open>
  The fate of a goroutine a handler starts: it ends at some moment, or it is blocked
  forever.
\<close>

datatype goroutine = NotStarted | Ended time | BlockedForever

definition ended :: "time option \<Rightarrow> goroutine" where
  "ended x = (case x of None \<Rightarrow> BlockedForever | Some t \<Rightarrow> Ended t)"

text \<open>
  What a handler call amounts to when it returns: the moment it returns, the
  responses it wrote and the fate of the worker goroutine it started. A handler call
  that never returns is \<open>None\<close>.
\<close>

record handled =
  returned_at :: time
  written :: "response list"
  worker :: goroutine

text \<open>
  The draws of the runtime during one handler call: in the worker's \<open>select\<close>, in
  the handler's \<open>select\<close>, and between a parent's firing and a deadline.
\<close>

record runtime =
  worker_pick :: pick
  handler_pick :: pick
  parent_first :: bool

text \<open>\<open>c.DefaultQuery(key, dflt)\<close>: the query value when the key is present.\<close>

definition DefaultQuery :: "string option \<Rightarrow> string \<Rightarrow> string" where
  "DefaultQuery q dflt = (case q of None \<Rightarrow> dflt | Some v \<Rightarrow> v)"

section \<open>Package \<open>demo\<close>: the handlers\<close>

subsection \<open>The registry of cancel functions and \<open>CancelHandler\<close>\<close>

text \<open>
  \<open>activeRequests\<close> is a \<open>sync.Map\<close>: keys and values are of type \<open>any\<close>. A stored
  value is either a \<open>context.CancelFunc\<close>, named by the context it cancels, or a
  value of another type. The package initialises the map empty, and \<open>CancelHandler\<close>,
  which only reads it, is the only function of the package that mentions it.

  The contexts a cancel function can reach are kept in a store: each context has a
  number, its firing as it stands, and the number of the context it was derived from,
  if any. Contexts are numbered in the order of their creation, so that a parent's
  number is below its child's.
\<close>

datatype any = CancelFunc nat | OtherValue

record server =
  activeRequests :: "string \<rightharpoonup> any"
  contexts :: "nat \<Rightarrow> ctx"
  derived_from :: "nat \<Rightarrow> nat option"

definition initial_activeRequests :: "string \<rightharpoonup> any" where
  "initial_activeRequests = Map.empty"

text \<open>
  Whether context \<open>j\<close> is context \<open>k\<close> or derives from it, directly or through other
  contexts: the walk from \<open>j\<close> towards the root, of at most \<open>n\<close> steps. From \<open>j\<close>
  no walk is longer than \<open>j\<close> steps.
\<close>

fun reaches :: "(nat \<Rightarrow> nat option) \<Rightarrow> nat \<Rightarrow> nat \<Rightarrow> nat \<Rightarrow> bool" where
  "reaches parent 0 j k = (j = k)"
| "reaches parent (Suc n) j k =
     (j = k \<or> (case parent j of None \<Rightarrow> False | Some p \<Rightarrow> reaches parent n p k))"

definition derives_from :: "(nat \<Rightarrow> nat option) \<Rightarrow> nat \<Rightarrow> nat \<Rightarrow> bool" where
  "derives_from parent j k = reaches parent j j k"

text \<open>
  A call, at \<open>now\<close>, of the cancel function of context \<open>k\<close>: the context fires, and
  so does every context derived from it, each unless it has fired already.
\<close>

definition call_CancelFunc :: "time \<Rightarrow> server \<Rightarrow> nat \<Rightarrow> server" where
  "call_CancelFunc now s k =
     s\<lparr>contexts :=
         (\<lambda>j. if derives_from (derived_from s) j k then cancel now (contexts s j)
              else contexts s j)\<rparr>"

text \<open>A call either returns or panics (the unchecked type assertion).\<close>

datatype 'a outcome = Returned 'a | Panicked

definition CancelHandler :: "time \<Rightarrow> server \<Rightarrow> string \<Rightarrow> server \<times> response outcome" where
  "CancelHandler now s requestID =
     (case activeRequests s requestID of
        Some cancelFunc \<Rightarrow>
          (case cancelFunc of
             CancelFunc k \<Rightarrow>
               (call_CancelFunc now s k,
                Returned (JSON StatusOK
                  [(''message'', JStr ''Request canceled''),
                   (''requestID'', JStr requestID)]))
           | OtherValue \<Rightarrow> (s, Panicked))
      | None \<Rightarrow>
          (s, Returned (JSON StatusNotFound
                [(''error'', JStr ''Request not found''),
                 (''requestID'', JStr requestID)])))"

subsection \<open>\<open>ProcessHandler\<close>\<close>

text \<open>
  The worker goroutine of \<open>ProcessHandler\<close>: its \<open>select\<close> between \<open>ctx.Done()\<close> and
  \<open>time.After(sleepTime)\<close>. \<open>Inl\<close>: it returns without sending; \<open>Inr\<close>: it reaches the
  send on \<open>resultChan\<close>.
\<close>

definition ProcessHandler_go ::
  "runtime \<Rightarrow> time \<Rightarrow> ctx \<Rightarrow> duration \<Rightarrow> (time \<times> (ctx_err + unit)) option" where
  "ProcessHandler_go rt now ctx sleepTime =
     select2 (worker_pick rt) now (Done ctx) (After now sleepTime)"

text \<open>What a receive on the worker's result channel waits for.\<close>

definition resultChan_of ::
  "(time \<times> ('e + unit)) option \<Rightarrow> duration \<Rightarrow> jval event" where
  "resultChan_of w sleepTime =
     (case w of
        Some (t, Inr u) \<Rightarrow> Some (t, JDurationString sleepTime)
      | _ \<Rightarrow> None)"

text \<open>
  The fate of a worker, given its \<open>select\<close> and the moment the handler takes the
  result, if it does.
\<close>

definition worker_fate ::
  "(time \<times> ('e + unit)) option \<Rightarrow> time option \<Rightarrow> goroutine" where
  "worker_fate w taken =
     (case w of
        None \<Rightarrow> BlockedForever
      | Some (t, Inl e) \<Rightarrow> Ended t
      | Some (t, Inr u) \<Rightarrow> ended (unbuffered_send t taken))"

text \<open>
  The fate of a goroutine that reaches a send on an unbuffered channel, given the
  moment a receiver takes what it sends, if one does.
\<close>

definition sender_fate :: "(time \<times> 'x) option \<Rightarrow> time option \<Rightarrow> goroutine" where
  "sender_fate w taken =
     (case w of
        None \<Rightarrow> BlockedForever
      | Some (t, x) \<Rightarrow> ended (unbuffered_send t taken))"

definition demo_ok :: "jval \<Rightarrow> jval \<Rightarrow> jval \<Rightarrow> response" where
  "demo_ok requestID timestamp sleepTime =
     JSON StatusOK
       [(''status'', JStr ''OK''),
        (''requestID'', requestID),
        (''timestamp'', timestamp),
        (''message'', JStr ''Process completed successfully''),
        (''sleepTime'', sleepTime)]"

definition demo_timeout :: "jval \<Rightarrow> jval \<Rightarrow> response" where
  "demo_timeout requestID timestamp =
     JSON StatusRequestTimeout
       [(''error'', JStr ''timeout''),
        (''requestID'', requestID),
        (''timestamp'', timestamp),
        (''message'', JStr ''Process timed out'')]"

definition demo_canceled :: "jval \<Rightarrow> jval \<Rightarrow> response" where
  "demo_canceled requestID timestamp =
     JSON StatusGatewayTimeout
       [(''error'', JStr ''canceled''),
        (''requestID'', requestID),
        (''timestamp'', timestamp),
        (''message'', JStr ''Request was canceled'')]"

definition demo_bad_request :: "jval \<Rightarrow> jval \<Rightarrow> response" where
  "demo_bad_request requestID timestamp =
     JSON StatusBadRequest
       [(''error'', JStr ''Invalid timeout format''),
        (''requestID'', requestID),
        (''timestamp'', timestamp),
        (''message'', JStr ''Timeout should be in the format of 1s, 500ms, etc.'')]"

text \<open>
  \<open>ProcessHandler\<close>, called at \<open>now\<close>. \<open>ParseDuration\<close> is \<open>time.ParseDuration\<close>
  (\<open>None\<close> for an error), \<open>request_ctx\<close> is \<open>c.Request.Context()\<close>, \<open>requestID\<close> and
  \<open>timestamp\<close> are what \<open>c.Get\<close> returns and \<open>query\<close> is the \<open>timeout\<close> query
  parameter. The deferred \<open>cancel()\<close> runs after the response is written, when the
  worker has either ended or is blocked on its send, and changes neither.
\<close>

definition ProcessHandler ::
  "runtime \<Rightarrow> (string \<Rightarrow> duration option) \<Rightarrow> time \<Rightarrow> ctx \<Rightarrow> jval \<Rightarrow> jval \<Rightarrow>
   string option \<Rightarrow> handled option" where
  "ProcessHandler rt ParseDuration now request_ctx requestID timestamp query =
     (let timeoutStr = DefaultQuery query ''10s'' in
      case ParseDuration timeoutStr of
        None \<Rightarrow>
          Some \<lparr>returned_at = now,
                written = [demo_bad_request requestID timestamp],
                worker = NotStarted\<rparr>
      | Some d \<Rightarrow>
          let ctx = WithTimeout (parent_first rt) request_ctx now d;
              sleepTime = 5 * Second;
              w = ProcessHandler_go rt now ctx sleepTime
          in (case select2 (handler_pick rt) now (resultChan_of w sleepTime) (Done ctx) of
                None \<Rightarrow> None
              | Some (t, Inl sleepTime') \<Rightarrow>
                  Some \<lparr>returned_at = t,
                        written = [demo_ok requestID timestamp sleepTime'],
                        worker = worker_fate w (Some t)\<rparr>
              | Some (t, Inr err) \<Rightarrow>
                  Some \<lparr>returned_at = t,
                        written =
                          [if err = DeadlineExceeded
                           then demo_timeout requestID timestamp
                           else demo_canceled requestID timestamp],
                        worker = worker_fate w None\<rparr>))"

subsection \<open>\<open>DemoParentCancellation\<close>\<close>

definition parent_ok :: "jval \<Rightarrow> jval \<Rightarrow> jval \<Rightarrow> duration \<Rightarrow> response" where
  "parent_ok requestID timestamp sleepTime triggerTime =
     JSON StatusOK
       [(''status'', JStr ''OK''),
        (''requestID'', requestID),
        (''timestamp'', timestamp),
        (''message'', JStr ''Process completed successfully''),
        (''sleepTime'', sleepTime),
        (''parentDelay'', JDurationString triggerTime)]"

definition parent_failed :: "jval \<Rightarrow> jval \<Rightarrow> ctx_err \<Rightarrow> duration \<Rightarrow> response" where
  "parent_failed requestID timestamp err triggerTime =
     (let message =
        (if err = Canceled then ''Process was canceled by parent context''
         else ''Process failed'')
      in JSON StatusInternalServerError
           [(''error'', JStr (Error_string err)),
            (''requestID'', requestID),
            (''timestamp'', timestamp),
            (''message'', JStr message),
            (''parentDelay'', JDurationString triggerTime)])"

text \<open>What a receive on the worker's error channel waits for.\<close>

definition errChan_of :: "(time \<times> ('e + unit)) option \<Rightarrow> 'e event" where
  "errChan_of w =
     (case w of
        Some (t, Inl err) \<Rightarrow> Some (t, err)
      | _ \<Rightarrow> None)"

text \<open>
  \<open>DemoParentCancellation\<close>, called at \<open>now\<close>; \<open>intn\<close> is what \<open>rand.Intn(3)\<close>
  returns. The first goroutine sleeps \<open>triggerTime\<close> and calls \<open>parentCancel\<close>; the
  second is the worker, which here sends on one of two channels, so that the handler's
  \<open>select\<close> always takes what it sends.
\<close>

definition DemoParentCancellation ::
  "runtime \<Rightarrow> time \<Rightarrow> jval \<Rightarrow> jval \<Rightarrow> nat \<Rightarrow> handled option" where
  "DemoParentCancellation rt now requestID timestamp intn =
     (let triggerTime = (1 + int intn) * Second;
          parentCtx = cancel (now + triggerTime) (WithCancel Background now);
          childCtx = WithTimeout (parent_first rt) parentCtx now (10 * Second);
          sleepTime = 5 * Second;
          w = select2 (worker_pick rt) now (Done childCtx) (After now sleepTime)
      in (case select2 (handler_pick rt) now (resultChan_of w sleepTime) (errChan_of w) of
            None \<Rightarrow> None
          | Some (t, Inl sleepTime') \<Rightarrow>
              Some \<lparr>returned_at = t,
                    written = [parent_ok requestID timestamp sleepTime' triggerTime],
                    worker = sender_fate w (Some t)\<rparr>
          | Some (t, Inr err) \<Rightarrow>
              Some \<lparr>returned_at = t,
                    written = [parent_failed requestID timestamp err triggerTime],
                    worker = sender_fate w (Some t)\<rparr>))"

subsection \<open>\<open>LockResponse\<close> and the two handlers that call it\<close>

text \<open>
  \<open>onlyReturnWhenContextCancelled\<close> is a \<open>select\<close> whose only case is
  \<open>ctx.Done()\<close>; the result is the moment it returns. \<open>LockResponse\<close> prints a line
  and runs it as its deferred call.
\<close>

definition onlyReturnWhenContextCancelled :: "time \<Rightarrow> ctx \<Rightarrow> time option" where
  "onlyReturnWhenContextCancelled now ctx = map_option fst (recv now (Done ctx))"

definition LockResponse :: "time \<Rightarrow> ctx \<Rightarrow> time option" where
  "LockResponse now ctx = onlyReturnWhenContextCancelled now ctx"

definition completed_ok :: "jval \<Rightarrow> jval \<Rightarrow> response" where
  "completed_ok requestID timestamp =
     JSON StatusOK
       [(''status'', JStr ''OK''),
        (''requestID'', requestID),
        (''timestamp'', timestamp),
        (''message'', JStr ''Process completed successfully'')]"

definition NeverRespondWithTimeoutContextHandler ::
  "runtime \<Rightarrow> time \<Rightarrow> ctx \<Rightarrow> jval \<Rightarrow> jval \<Rightarrow> handled option" where
  "NeverRespondWithTimeoutContextHandler rt now request_ctx requestID timestamp =
     (let ctx = WithTimeout (parent_first rt) request_ctx now (2 * Second) in
      case LockResponse now ctx of
        None \<Rightarrow> None
      | Some t \<Rightarrow>
          Some \<lparr>returned_at = t,
                written = [completed_ok requestID timestamp],
                worker = NotStarted\<rparr>)"

definition NeverRespondWithGoContextHandler ::
  "time \<Rightarrow> jval \<Rightarrow> jval \<Rightarrow> handled option" where
  "NeverRespondWithGoContextHandler now requestID timestamp =
     (case LockResponse now Background of
        None \<Rightarrow> None
      | Some t \<Rightarrow>
          Some \<lparr>returned_at = t,
                written = [completed_ok requestID timestamp],
                worker = NotStarted\<rparr>)"

subsection \<open>\<open>ClientCancellationMiddleware\<close>\<close>

text \<open>
  One request through the middleware, entered at \<open>now\<close>. \<open>request_ctx\<close> is the
  context the request arrives with and \<open>Next\<close> is \<open>c.Next()\<close>: given the context the
  middleware installs in \<open>c.Request\<close>, the moment the remaining handlers return
  (\<open>None\<close>: never). The deferred \<open>cancel()\<close> runs when they return. The watcher
  goroutine starts after \<open>c.Request\<close> has been replaced, so the
  \<open>c.Request.Context()\<close> it waits on is the installed context; when that fires it
  calls \<open>cancel()\<close> and ends.
\<close>

record middleware_run =
  handler_ctx :: ctx
  next_returned :: "time option"
  final_ctx :: ctx
  watcher :: goroutine

definition ClientCancellationMiddleware ::
  "time \<Rightarrow> ctx \<Rightarrow> (ctx \<Rightarrow> time option) \<Rightarrow> middleware_run" where
  "ClientCancellationMiddleware now request_ctx Next =
     (let ctx = WithCancel request_ctx now;
          returned = Next ctx;
          released = (case returned of None \<Rightarrow> ctx | Some t \<Rightarrow> cancel t ctx);
          w = recv now (Done released)
      in \<lparr>handler_ctx = ctx,
          next_returned = returned,
          final_ctx = (case w of None \<Rightarrow> released | Some (t, e) \<Rightarrow> cancel t released),
          watcher = ended (map_option fst w)\<rparr>)"

section \<open>Package \<open>process\<close>: \<open>ProcessHandler\<close>\<close>

definition process_ok :: "jval \<Rightarrow> jval \<Rightarrow> string \<Rightarrow> response" where
  "process_ok requestID timestamp timeoutStr =
     JSON StatusOK
       [(''message'', JStr ''Processing completed successfully''),
        (''requestID'', requestID),
        (''timestamp'', timestamp),
        (''duration'', JStr timeoutStr),
        (''processed'', JBool True)]"

definition process_timed_out :: "jval \<Rightarrow> jval \<Rightarrow> string \<Rightarrow> response" where
  "process_timed_out requestID timestamp timeoutStr =
     JSON StatusGatewayTimeout
       [(''error'', JStr ''Request timed out''),
        (''requestID'', requestID),
        (''timestamp'', timestamp),
        (''duration'', JStr timeoutStr),
        (''message'', JStr ''The operation took longer than the specified timeout'')]"

definition process_cancelled :: "jval \<Rightarrow> jval \<Rightarrow> ctx_err \<Rightarrow> response" where
  "process_cancelled requestID timestamp err =
     JSON StatusInternalServerError
       [(''error'', JStr ''Request cancelled''),
        (''requestID'', requestID),
        (''timestamp'', timestamp),
        (''message'', JStr (Error_string err))]"

definition process_bad_request :: "jval \<Rightarrow> jval \<Rightarrow> response" where
  "process_bad_request requestID timestamp =
     JSON StatusBadRequest
       [(''error'', JStr ''Invalid timeout format''),
        (''requestID'', requestID),
        (''timestamp'', timestamp),
        (''message'', JStr ''Timeout should be in the format of 1s, 500ms, etc.'')]"

text \<open>
  The worker goroutine of this handler sleeps and then sends on the unbuffered
  channel \<open>done\<close>; it never looks at the context. The result is the moment it reaches
  the send.
\<close>

definition process_ProcessHandler_go :: "time \<Rightarrow> time" where
  "process_ProcessHandler_go now = now + 5 * Second"

definition process_ProcessHandler ::
  "runtime \<Rightarrow> (string \<Rightarrow> duration option) \<Rightarrow> time \<Rightarrow> ctx \<Rightarrow> jval \<Rightarrow> jval \<Rightarrow>
   string option \<Rightarrow> handled option" where
  "process_ProcessHandler rt ParseDuration now request_ctx requestID timestamp query =
     (let timeoutStr = DefaultQuery query ''10s'' in
      case ParseDuration timeoutStr of
        None \<Rightarrow>
          Some \<lparr>returned_at = now,
                written = [process_bad_request requestID timestamp],
                worker = NotStarted\<rparr>
      | Some d \<Rightarrow>
          let ctx = WithTimeout (parent_first rt) request_ctx now d;
              sending = process_ProcessHandler_go now
          in (case select2 (handler_pick rt) now (Some (sending, True)) (Done ctx) of
                None \<Rightarrow> None
              | Some (t, Inl b) \<Rightarrow>
                  Some \<lparr>returned_at = t,
                        written = [process_ok requestID timestamp timeoutStr],
                        worker = ended (unbuffered_send sending (Some t))\<rparr>
              | Some (t, Inr err) \<Rightarrow>
                  Some \<lparr>returned_at = t,
                        written =
                          [if err = DeadlineExceeded
                           then process_timed_out requestID timestamp timeoutStr
                           else process_cancelled requestID timestamp err],
                        worker = ended (unbuffered_send sending None)\<rparr>))"

section \<open>Example inputs\<close>

text \<open>
  A registry with one entry, for a context from which a second context with a
  deadline of ten seconds derives, two sets of runtime draws, a chain of remaining handlers
  that returns at moment 5, and a \<open>time.ParseDuration\<close> restricted to the four
  strings the examples use.
\<close>

definition example_server :: server where
  "example_server =
     \<lparr>activeRequests = [''req-1'' \<mapsto> CancelFunc 0],
        contexts =
          (\<lambda>j. if j = Suc 0 then WithTimeout True Background 0 (10 * Second)
               else Background),
        derived_from = (\<lambda>j. if j = Suc 0 then Some 0 else None)\<rparr>"

definition example_runtime :: runtime where
  "example_runtime = \<lparr>worker_pick = Case2, handler_pick = Case1, parent_first = True\<rparr>"

definition timeout_first_runtime :: runtime where
  "timeout_first_runtime = \<lparr>worker_pick = Case2, handler_pick = Case2, parent_first = True\<rparr>"

definition example_Next :: "ctx \<Rightarrow> time option" where
  "example_Next c = Some 5"

definition example_ParseDuration :: "string \<Rightarrow> duration option" where
  "example_ParseDuration s =
     (if s = ''10s'' then Some (10 * Second)
      else if s = ''5s'' then Some (5 * Second)
      else if s = ''2s'' then Some (2 * Second)
      else if s = ''-1s'' then Some (- Second)
      else None)"

section \<open>The two bounded runs, case by case\<close>

text \<open>
  Once the timeout has parsed, what either \<open>ProcessHandler\<close> does depends only on
  when its context fires relative to the five seconds of work, and on the runtime's
  draws when the two coincide.
\<close>

lemma Second_pos: "(0::int) < 5 * Second"
  by (simp add: Second_def)

lemma WithTimeout_fires:
  "\<exists>t r. WithTimeout pf p now d = Some (t, r) \<and> now \<le> t \<and> t \<le> max now (now + d)"
  by (auto simp: WithTimeout_def split: option.splits)

lemma WithTimeout_not_before:
  "WithTimeout pf p now d = Some (t, r) \<Longrightarrow> now \<le> t"
  by (auto simp: WithTimeout_def split: option.splits if_splits)

lemma WithTimeout_past:
  "d \<le> 0 \<Longrightarrow>
   WithTimeout pf p now d =
     Some (now, case p of None \<Rightarrow> DeadlineExceeded
                | Some (tp, rp) \<Rightarrow> if tp \<le> now then rp else DeadlineExceeded)"
  by (auto simp: WithTimeout_def max_def split: option.splits)

lemma ProcessHandler_go_cases:
  assumes "now \<le> tc"
  shows "ProcessHandler_go rt now (Some (tc, r)) (5 * Second) =
     (if tc < now + 5 * Second \<or> (tc = now + 5 * Second \<and> worker_pick rt = Case1)
      then Some (tc, Inl r) else Some (now + 5 * Second, Inr ()))"
  using assms Second_pos
  by (cases "worker_pick rt")
     (auto simp: ProcessHandler_go_def Done_def After_def select2_def recv_def max_def)

lemma ProcessHandler_cases:
  assumes "ParseDuration (DefaultQuery query ''10s'') = Some d"
    and "WithTimeout (parent_first rt) request_ctx now d = Some (tc, r)"
  shows "ProcessHandler rt ParseDuration now request_ctx rid ts query =
    Some (if tc < now + 5 * Second \<or>
             (tc = now + 5 * Second \<and> (worker_pick rt = Case1 \<or> handler_pick rt = Case2))
          then \<lparr>returned_at = tc,
                written = [if r = DeadlineExceeded then demo_timeout rid ts
                           else demo_canceled rid ts],
                worker = (if tc < now + 5 * Second \<or> worker_pick rt = Case1
                          then Ended tc else BlockedForever)\<rparr>
          else \<lparr>returned_at = now + 5 * Second,
                written = [demo_ok rid ts (JDurationString (5 * Second))],
                worker = Ended (now + 5 * Second)\<rparr>)"
proof -
  have n: "now \<le> tc" using assms(2) by (rule WithTimeout_not_before)
  show ?thesis
    using assms n Second_pos
    by (cases "worker_pick rt"; cases "handler_pick rt")
       (auto simp: ProcessHandler_def Let_def ProcessHandler_go_cases resultChan_of_def Done_def
          select2_def recv_def max_def worker_fate_def unbuffered_send_def ended_def)
qed

lemma process_ProcessHandler_cases:
  assumes "ParseDuration (DefaultQuery query ''10s'') = Some d"
    and "WithTimeout (parent_first rt) request_ctx now d = Some (tc, r)"
  shows "process_ProcessHandler rt ParseDuration now request_ctx rid ts query =
    Some (if tc < now + 5 * Second \<or> (tc = now + 5 * Second \<and> handler_pick rt = Case2)
          then \<lparr>returned_at = tc,
                written = [if r = DeadlineExceeded
                           then process_timed_out rid ts (DefaultQuery query ''10s'')
                           else process_cancelled rid ts r],
                worker = BlockedForever\<rparr>
          else \<lparr>returned_at = now + 5 * Second,
                written = [process_ok rid ts (DefaultQuery query ''10s'')],
                worker = Ended (now + 5 * Second)\<rparr>)"
proof -
  have n: "now \<le> tc" using assms(2) by (rule WithTimeout_not_before)
  show ?thesis
    using assms n Second_pos
    by (cases "handler_pick rt")
       (auto simp: process_ProcessHandler_def Let_def process_ProcessHandler_go_def Done_def
          select2_def recv_def max_def unbuffered_send_def ended_def)
qed

lemma DemoParentCancellation_childCtx:
  assumes "0 < tt" and "tt < 10 * Second"
  shows "WithTimeout pf (cancel (now + tt) (WithCancel Background now)) now (10 * Second) =
    Some (now + tt, Canceled)"
  using assms
  by (simp add: WithTimeout_def cancel_def WithCancel_def Background_def is_done_def Second_def)

lemma cancel_is_done: "is_done now (cancel now c)"
  by (simp add: cancel_def is_done_def)

lemma derives_from_self: "derives_from parent k k"
  by (cases k) (simp_all add: derives_from_def)


section \<open>The claims\<close>

subsection \<open>Parent cancellation\<close>

text \<open>
  Claim C1. In \<open>DemoParentCancellation\<close> the parent is canceled after
  \<open>(1 + rand.Intn(3))\<close> seconds, the child has a deadline of ten seconds and the work
  takes five. Whenever the trigger time is below five seconds, the handler returns at
  the trigger time with the \<open>500\<close> response that carries the child's error
  \<open>context canceled\<close> and the message "Process was canceled by parent context", and
  no response it writes has status \<open>200\<close>.
\<close>

theorem parent_cancellation_is_reported:
  assumes "(1 + int intn) * Second < 5 * Second"
  shows
   "DemoParentCancellation rt now rid ts intn =
      Some \<lparr>returned_at = now + (1 + int intn) * Second,
            written =
              [JSON StatusInternalServerError
                 [(''error'', JStr ''context canceled''),
                  (''requestID'', rid),
                  (''timestamp'', ts),
                  (''message'', JStr ''Process was canceled by parent context''),
                  (''parentDelay'', JDurationString ((1 + int intn) * Second))]],
            worker = Ended (now + (1 + int intn) * Second)\<rparr> \<and>
    (\<forall>h. DemoParentCancellation rt now rid ts intn = Some h \<longrightarrow>
       (\<forall>resp \<in> set (written h). status resp \<noteq> StatusOK))"
proof -
  let ?tt = "(1 + int intn) * Second"
  have pos: "0 < ?tt"
    by (simp add: Second_def)
  have lt: "?tt < 10 * Second"
    using assms by (simp add: Second_def)
  have child: "WithTimeout (parent_first rt) (cancel (now + ?tt) (WithCancel Background now))
      now (10 * Second) = Some (now + ?tt, Canceled)"
    using pos lt by (rule DemoParentCancellation_childCtx)
  have w: "select2 (worker_pick rt) now (Done (Some (now + ?tt, Canceled))) (After now (5 * Second))
      = Some (now + ?tt, Inl Canceled)"
    using assms pos by (simp add: select2_def recv_def Done_def After_def max_def)
  have eq: "DemoParentCancellation rt now rid ts intn =
      Some \<lparr>returned_at = now + ?tt,
            written = [parent_failed rid ts Canceled ?tt],
            worker = Ended (now + ?tt)\<rparr>"
    unfolding DemoParentCancellation_def Let_def child w
    using pos
    by (simp add: resultChan_of_def errChan_of_def select2_def recv_def max_def
        sender_fate_def unbuffered_send_def ended_def)
  show ?thesis
    unfolding eq
    by (simp add: parent_failed_def JSON_def StatusInternalServerError_def StatusOK_def)
qed

theorem parent_cancellation_is_reported_witness:
  "(1 + int 2) * Second < 5 * Second \<and>
   DemoParentCancellation example_runtime 0 (JStr ''req-1'') JNil 2 =
     Some \<lparr>returned_at = 3 * Second,
           written =
             [JSON StatusInternalServerError
                [(''error'', JStr ''context canceled''),
                 (''requestID'', JStr ''req-1''),
                 (''timestamp'', JNil),
                 (''message'', JStr ''Process was canceled by parent context''),
                 (''parentDelay'', JDurationString (3 * Second))]],
           worker = Ended (3 * Second)\<rparr>"
proof -
  have h: "(1 + int 2) * Second < 5 * Second"
    by (simp add: Second_def)
  show ?thesis
    using parent_cancellation_is_reported [OF h, of example_runtime 0 "JStr ''req-1''" JNil] h
    by simp
qed

subsection \<open>The bounded run\<close>



text \<open>
  Claim C3, as amended. When the work's completion and the context's firing fall on
  the same moment, the response is the one the runtime's draws select: in package
  \<open>demo\<close> the success response when the worker's \<open>select\<close> draws its timer and the
  handler's \<open>select\<close> draws the result channel, and the context's failure response
  otherwise; in package \<open>process\<close> the success response when the handler's \<open>select\<close>
  draws the \<open>done\<close> channel, and the context's failure response otherwise.
\<close>

theorem tie_reports_the_runtime_pick:
  assumes "ParseDuration (DefaultQuery query ''10s'') = Some d"
    and "WithTimeout (parent_first rt) request_ctx now d = Some (now + 5 * Second, r)"
  shows
   "ProcessHandler rt ParseDuration now request_ctx rid ts query =
      Some \<lparr>returned_at = now + 5 * Second,
            written =
              [if worker_pick rt = Case2 \<and> handler_pick rt = Case1
               then demo_ok rid ts (JDurationString (5 * Second))
               else if r = DeadlineExceeded then demo_timeout rid ts
               else demo_canceled rid ts],
            worker =
              (if worker_pick rt = Case2 \<and> handler_pick rt = Case2
               then BlockedForever else Ended (now + 5 * Second))\<rparr> \<and>
    process_ProcessHandler rt ParseDuration now request_ctx rid ts query =
      Some \<lparr>returned_at = now + 5 * Second,
            written =
              [if handler_pick rt = Case1
               then process_ok rid ts (DefaultQuery query ''10s'')
               else if r = DeadlineExceeded
               then process_timed_out rid ts (DefaultQuery query ''10s'')
               else process_cancelled rid ts r],
            worker =
              (if handler_pick rt = Case1 then Ended (now + 5 * Second)
               else BlockedForever)\<rparr>"
proof -
  note demo = ProcessHandler_cases
    [where ParseDuration = ParseDuration and query = query and rid = rid and ts = ts, OF assms]
  note proc = process_ProcessHandler_cases
    [where ParseDuration = ParseDuration and query = query and rid = rid and ts = ts, OF assms]
  show ?thesis
    by (cases "worker_pick rt"; cases "handler_pick rt") (simp_all add: demo proc)
qed

theorem tie_reports_the_runtime_pick_witness:
  "example_ParseDuration (DefaultQuery (Some ''5s'') ''10s'') = Some (5 * Second) \<and>
   WithTimeout (parent_first example_runtime) None 0 (5 * Second) =
     Some (0 + 5 * Second, DeadlineExceeded) \<and>
   ProcessHandler example_runtime example_ParseDuration 0 None (JStr ''req-1'') JNil
       (Some ''5s'') =
     Some \<lparr>returned_at = 0 + 5 * Second,
           written = [demo_ok (JStr ''req-1'') JNil (JDurationString (5 * Second))],
           worker = Ended (0 + 5 * Second)\<rparr> \<and>
   process_ProcessHandler example_runtime example_ParseDuration 0 None (JStr ''req-1'') JNil
       (Some ''5s'') =
     Some \<lparr>returned_at = 0 + 5 * Second,
           written = [process_ok (JStr ''req-1'') JNil ''5s''],
           worker = Ended (0 + 5 * Second)\<rparr>"
proof -
  have p: "example_ParseDuration (DefaultQuery (Some ''5s'') ''10s'') = Some (5 * Second)"
    by (simp add: example_ParseDuration_def DefaultQuery_def)
  have c: "WithTimeout (parent_first example_runtime) None 0 (5 * Second) =
     Some (0 + 5 * Second, DeadlineExceeded)"
    by (simp add: WithTimeout_def Second_def)
  show ?thesis
    using tie_reports_the_runtime_pick
        [where ParseDuration = example_ParseDuration and query = "Some ''5s''"
           and rid = "JStr ''req-1''" and ts = JNil, OF p c]
      p c
    by (simp add: DefaultQuery_def example_runtime_def)
qed

text \<open>
  The claim as stated, that the success branch is reported at every such tie, fails:
  with a timeout of five seconds and both draws on the second case, either handler
  reports the timeout.
\<close>

theorem tie_reports_timeout_counterexample:
  "WithTimeout (parent_first timeout_first_runtime) None 0 (5 * Second) =
     Some (0 + 5 * Second, DeadlineExceeded) \<and>
   After 0 (5 * Second) = Some (0 + 5 * Second, ()) \<and>
   ProcessHandler timeout_first_runtime example_ParseDuration 0 None (JStr ''req-1'') JNil
       (Some ''5s'') =
     Some \<lparr>returned_at = 5 * Second,
           written = [demo_timeout (JStr ''req-1'') JNil],
           worker = BlockedForever\<rparr> \<and>
   demo_timeout (JStr ''req-1'') JNil \<noteq>
     demo_ok (JStr ''req-1'') JNil (JDurationString (5 * Second)) \<and>
   process_ProcessHandler timeout_first_runtime example_ParseDuration 0 None (JStr ''req-1'') JNil
       (Some ''5s'') =
     Some \<lparr>returned_at = 5 * Second,
           written = [process_timed_out (JStr ''req-1'') JNil ''5s''],
           worker = BlockedForever\<rparr> \<and>
   process_timed_out (JStr ''req-1'') JNil ''5s'' \<noteq> process_ok (JStr ''req-1'') JNil ''5s''"
proof -
  have p: "example_ParseDuration (DefaultQuery (Some ''5s'') ''10s'') = Some (5 * Second)"
    by (simp add: example_ParseDuration_def DefaultQuery_def)
  have c: "WithTimeout (parent_first timeout_first_runtime) None 0 (5 * Second) =
     Some (0 + 5 * Second, DeadlineExceeded)"
    by (simp add: WithTimeout_def Second_def)
  note demo = ProcessHandler_cases
    [where ParseDuration = example_ParseDuration and query = "Some ''5s''"
       and rid = "JStr ''req-1''" and ts = JNil, OF p c]
  note proc = process_ProcessHandler_cases
    [where ParseDuration = example_ParseDuration and query = "Some ''5s''"
       and rid = "JStr ''req-1''" and ts = JNil, OF p c]
  have picks: "worker_pick timeout_first_runtime = Case2"
    "handler_pick timeout_first_runtime = Case2"
    by (simp_all add: timeout_first_runtime_def)
  have ne: "demo_timeout (JStr ''req-1'') JNil \<noteq>
      demo_ok (JStr ''req-1'') JNil (JDurationString (5 * Second))"
    "process_timed_out (JStr ''req-1'') JNil ''5s'' \<noteq> process_ok (JStr ''req-1'') JNil ''5s''"
    by (simp_all add: demo_timeout_def demo_ok_def process_timed_out_def process_ok_def JSON_def
        StatusOK_def StatusRequestTimeout_def StatusGatewayTimeout_def)
  show ?thesis
    using c ne
    by (simp add: demo proc picks After_def DefaultQuery_def)
qed

subsection \<open>The registry\<close>

text \<open>
  Claim C4. The claim says that every request enters its cancel function in the
  registry at its start and removes it at its end. No function of the package stores
  into \<open>activeRequests\<close> or deletes from it; the one function that mentions it,
  \<open>CancelHandler\<close>, loads from it. So the registry is the empty one of the
  package's initialisation at every moment, and a cancel for any identifier, also
  that of a request in flight, answers "Request not found" and changes nothing.
\<close>

theorem cancel_finds_nothing_in_initial_registry:
  assumes "activeRequests s = initial_activeRequests"
  shows "CancelHandler now s requestID =
    (s, Returned (JSON StatusNotFound
          [(''error'', JStr ''Request not found''), (''requestID'', JStr requestID)]))"
  using assms by (simp add: CancelHandler_def initial_activeRequests_def)

theorem cancel_finds_nothing_in_initial_registry_witness:
  "activeRequests
     \<lparr>activeRequests = initial_activeRequests,
        contexts = (\<lambda>k. WithTimeout True Background 0 (10 * Second)),
        derived_from = (\<lambda>k. None)\<rparr> =
     initial_activeRequests \<and>
   CancelHandler Second
     \<lparr>activeRequests = initial_activeRequests,
        contexts = (\<lambda>k. WithTimeout True Background 0 (10 * Second)),
        derived_from = (\<lambda>k. None)\<rparr>
     ''req-123456'' =
     (\<lparr>activeRequests = initial_activeRequests,
         contexts = (\<lambda>k. WithTimeout True Background 0 (10 * Second)),
        derived_from = (\<lambda>k. None)\<rparr>,
      Returned (JSON StatusNotFound
        [(''error'', JStr ''Request not found''), (''requestID'', JStr ''req-123456'')]))"
  using cancel_finds_nothing_in_initial_registry
    [of "\<lparr>activeRequests = initial_activeRequests,
           contexts = (\<lambda>k. WithTimeout True Background 0 (10 * Second)),
        derived_from = (\<lambda>k. None)\<rparr>"
        Second "''req-123456''"]
  by simp

text \<open>
  Claim C5. When a cancel function is registered under the identifier \<open>X\<close>,
  \<open>CancelHandler\<close> for \<open>X\<close> calls it: the context it belongs to has fired by the
  time the handler returns, and so has every context derived from it; the response is
  the \<open>200\<close> "Request canceled" one, and the registry is as before. For an
  identifier \<open>Y\<close> with no entry the response is the \<open>404\<close> "Request not found" one
  and the state, with every context and every registry entry, is the one before the
  call.
\<close>

theorem CancelHandler_lookup:
  "(activeRequests s X = Some (CancelFunc k) \<longrightarrow>
      snd (CancelHandler now s X) =
        Returned (JSON StatusOK
          [(''message'', JStr ''Request canceled''), (''requestID'', JStr X)]) \<and>
      is_done now (contexts (fst (CancelHandler now s X)) k) \<and>
      (\<forall>j. derives_from (derived_from s) j k \<longrightarrow>
         is_done now (contexts (fst (CancelHandler now s X)) j)) \<and>
      activeRequests (fst (CancelHandler now s X)) = activeRequests s) \<and>
   (activeRequests s Y = None \<longrightarrow>
      CancelHandler now s Y =
        (s, Returned (JSON StatusNotFound
              [(''error'', JStr ''Request not found''), (''requestID'', JStr Y)])))"
  by (simp add: CancelHandler_def call_CancelFunc_def cancel_is_done derives_from_self)

theorem CancelHandler_lookup_witness:
  "activeRequests example_server ''req-1'' = Some (CancelFunc 0) \<and>
   snd (CancelHandler 7 example_server ''req-1'') =
     Returned (JSON StatusOK
       [(''message'', JStr ''Request canceled''), (''requestID'', JStr ''req-1'')]) \<and>
   is_done 7 (contexts (fst (CancelHandler 7 example_server ''req-1'')) 0) \<and>
   contexts (fst (CancelHandler 7 example_server ''req-1'')) 0 = Some (7, Canceled) \<and>
   derives_from (derived_from example_server) (Suc 0) 0 \<and>
   contexts example_server (Suc 0) = Some (10 * Second, DeadlineExceeded) \<and>
   is_done 7 (contexts (fst (CancelHandler 7 example_server ''req-1'')) (Suc 0)) \<and>
   contexts (fst (CancelHandler 7 example_server ''req-1'')) (Suc 0) = Some (7, Canceled) \<and>
   activeRequests example_server ''req-2'' = None \<and>
   CancelHandler 7 example_server ''req-2'' =
     (example_server,
      Returned (JSON StatusNotFound
        [(''error'', JStr ''Request not found''), (''requestID'', JStr ''req-2'')]))"
proof -
  have h1: "activeRequests example_server ''req-1'' = Some (CancelFunc 0)"
    by (simp add: example_server_def)
  have h2: "activeRequests example_server ''req-2'' = None"
    by (simp add: example_server_def)
  have d: "derives_from (derived_from example_server) (Suc 0) 0"
    by (simp add: derives_from_def example_server_def)
  have before: "contexts example_server (Suc 0) = Some (10 * Second, DeadlineExceeded)"
    by (simp add: example_server_def WithTimeout_def Background_def Second_def)
  have c0: "contexts (fst (CancelHandler 7 example_server ''req-1'')) 0 = Some (7, Canceled)"
    using h1
    by (simp add: CancelHandler_def call_CancelFunc_def derives_from_self)
       (simp add: example_server_def cancel_def is_done_def Background_def)
  have c1: "contexts (fst (CancelHandler 7 example_server ''req-1'')) (Suc 0) =
      Some (7, Canceled)"
    using h1 d before
    by (simp add: CancelHandler_def call_CancelFunc_def cancel_def is_done_def Second_def)
  show ?thesis
    using CancelHandler_lookup [of example_server "''req-1''" 0 7 "''req-2''"] h1 h2 d before c0 c1
    by simp
qed

subsection \<open>The client-cancellation middleware\<close>

text \<open>
  Claim C6. For a request through \<open>ClientCancellationMiddleware\<close>: when the context
  the request arrived with fires at a moment \<open>e\<close> during the handling, the context
  the middleware installed fires at \<open>e\<close> with the same error; and when the remaining
  handlers return at \<open>t1\<close>, the watcher goroutine has ended by \<open>t1\<close>.
\<close>

theorem middleware_propagates_and_watcher_ends:
  "(request_ctx = Some (e, r) \<and> now \<le> e \<longrightarrow>
      handler_ctx (ClientCancellationMiddleware now request_ctx Next) = Some (e, r) \<and>
      is_done e (final_ctx (ClientCancellationMiddleware now request_ctx Next))) \<and>
   (Next (WithCancel request_ctx now) = Some t1 \<and> now \<le> t1 \<longrightarrow>
      next_returned (ClientCancellationMiddleware now request_ctx Next) = Some t1 \<and>
      (\<exists>t. watcher (ClientCancellationMiddleware now request_ctx Next) = Ended t \<and> t \<le> t1))"
  by (auto simp: ClientCancellationMiddleware_def Let_def WithCancel_def cancel_def is_done_def
      recv_def Done_def ended_def max_def split: option.splits)

theorem middleware_propagates_and_watcher_ends_witness:
  "(1::int) \<le> 3 \<and>
   handler_ctx (ClientCancellationMiddleware 1 (Some (3, Canceled)) example_Next) =
     Some (3, Canceled) \<and>
   is_done 3 (final_ctx (ClientCancellationMiddleware 1 (Some (3, Canceled)) example_Next)) \<and>
   example_Next (WithCancel Background 1) = Some 5 \<and> (1::int) \<le> 5 \<and>
   next_returned (ClientCancellationMiddleware 1 Background example_Next) = Some 5 \<and>
   watcher (ClientCancellationMiddleware 1 Background example_Next) = Ended 5"
proof -
  have w: "watcher (ClientCancellationMiddleware 1 Background example_Next) = Ended 5"
    by (simp add: ClientCancellationMiddleware_def Let_def WithCancel_def cancel_def
        is_done_def recv_def Done_def ended_def Background_def example_Next_def)
  have n: "example_Next (WithCancel Background 1) = Some 5"
    by (simp add: example_Next_def)
  show ?thesis
    using middleware_propagates_and_watcher_ends
        [of "Some (3, Canceled)" 3 Canceled 1 example_Next 5]
      middleware_propagates_and_watcher_ends
        [of Background 3 Canceled 1 example_Next 5]
      w n
    by simp
qed

subsection \<open>A deadline that has passed\<close>

text \<open>
  Claim C7, as amended. A context made by \<open>WithTimeout\<close> with a duration that is not
  positive fires at once, and either \<open>ProcessHandler\<close> takes the done branch of its
  \<open>select\<close> at once, without waiting for the work. When the request's context has not
  fired before, the error is \<open>DeadlineExceeded\<close> and the response is the timeout one;
  when it has, the error is the request context's, and the response follows that
  error.
\<close>

theorem past_deadline_fires_at_once:
  assumes "ParseDuration (DefaultQuery query ''10s'') = Some d"
    and "d \<le> 0"
  shows
   "(\<not> is_done now request_ctx \<longrightarrow>
       WithTimeout (parent_first rt) request_ctx now d = Some (now, DeadlineExceeded) \<and>
       ProcessHandler rt ParseDuration now request_ctx rid ts query =
         Some \<lparr>returned_at = now,
               written = [demo_timeout rid ts],
               worker = Ended now\<rparr> \<and>
       process_ProcessHandler rt ParseDuration now request_ctx rid ts query =
         Some \<lparr>returned_at = now,
               written = [process_timed_out rid ts (DefaultQuery query ''10s'')],
               worker = BlockedForever\<rparr>) \<and>
    (\<forall>tp rp. request_ctx = Some (tp, rp) \<and> tp \<le> now \<longrightarrow>
       WithTimeout (parent_first rt) request_ctx now d = Some (now, rp) \<and>
       ProcessHandler rt ParseDuration now request_ctx rid ts query =
         Some \<lparr>returned_at = now,
               written = [if rp = DeadlineExceeded then demo_timeout rid ts
                          else demo_canceled rid ts],
               worker = Ended now\<rparr> \<and>
       process_ProcessHandler rt ParseDuration now request_ctx rid ts query =
         Some \<lparr>returned_at = now,
               written = [if rp = DeadlineExceeded
                          then process_timed_out rid ts (DefaultQuery query ''10s'')
                          else process_cancelled rid ts rp],
               worker = BlockedForever\<rparr>)"
proof -
  let ?r = "case request_ctx of None \<Rightarrow> DeadlineExceeded
            | Some (tp, rp) \<Rightarrow> if tp \<le> now then rp else DeadlineExceeded"
  have c: "WithTimeout (parent_first rt) request_ctx now d = Some (now, ?r)"
    using assms(2) by (rule WithTimeout_past)
  note demo = ProcessHandler_cases
    [where ParseDuration = ParseDuration and query = query and rid = rid and ts = ts,
     OF assms(1) c]
  note proc = process_ProcessHandler_cases
    [where ParseDuration = ParseDuration and query = query and rid = rid and ts = ts,
     OF assms(1) c]
  have live: "\<not> is_done now request_ctx \<Longrightarrow> ?r = DeadlineExceeded"
    by (auto simp: is_done_def split: option.splits)
  have fired: "\<And>tp rp. request_ctx = Some (tp, rp) \<Longrightarrow> tp \<le> now \<Longrightarrow> ?r = rp"
    by simp
  have part1:
    "WithTimeout (parent_first rt) request_ctx now d = Some (now, DeadlineExceeded) \<and>
     ProcessHandler rt ParseDuration now request_ctx rid ts query =
       Some \<lparr>returned_at = now, written = [demo_timeout rid ts], worker = Ended now\<rparr> \<and>
     process_ProcessHandler rt ParseDuration now request_ctx rid ts query =
       Some \<lparr>returned_at = now,
             written = [process_timed_out rid ts (DefaultQuery query ''10s'')],
             worker = BlockedForever\<rparr>"
    if "\<not> is_done now request_ctx"
    unfolding demo proc c using Second_pos live [OF that] by simp
  have part2:
    "WithTimeout (parent_first rt) request_ctx now d = Some (now, rp) \<and>
     ProcessHandler rt ParseDuration now request_ctx rid ts query =
       Some \<lparr>returned_at = now,
             written = [if rp = DeadlineExceeded then demo_timeout rid ts
                        else demo_canceled rid ts],
             worker = Ended now\<rparr> \<and>
     process_ProcessHandler rt ParseDuration now request_ctx rid ts query =
       Some \<lparr>returned_at = now,
             written = [if rp = DeadlineExceeded
                        then process_timed_out rid ts (DefaultQuery query ''10s'')
                        else process_cancelled rid ts rp],
             worker = BlockedForever\<rparr>"
    if "request_ctx = Some (tp, rp)" and "tp \<le> now" for tp rp
    unfolding demo proc c using Second_pos fired [OF that] by simp
  show ?thesis
    using part1 part2 by blast
qed

theorem past_deadline_fires_at_once_witness:
  "example_ParseDuration (DefaultQuery (Some ''-1s'') ''10s'') = Some (- Second) \<and>
   - Second \<le> 0 \<and>
   \<not> is_done 0 None \<and>
   WithTimeout (parent_first example_runtime) None 0 (- Second) = Some (0, DeadlineExceeded) \<and>
   ProcessHandler example_runtime example_ParseDuration 0 None (JStr ''req-1'') JNil
       (Some ''-1s'') =
     Some \<lparr>returned_at = 0, written = [demo_timeout (JStr ''req-1'') JNil],
           worker = Ended 0\<rparr> \<and>
   process_ProcessHandler example_runtime example_ParseDuration 0 None (JStr ''req-1'') JNil
       (Some ''-1s'') =
     Some \<lparr>returned_at = 0, written = [process_timed_out (JStr ''req-1'') JNil ''-1s''],
           worker = BlockedForever\<rparr>"
proof -
  have p: "example_ParseDuration (DefaultQuery (Some ''-1s'') ''10s'') = Some (- Second)"
    by (simp add: example_ParseDuration_def DefaultQuery_def)
  have d: "- Second \<le> 0"
    by (simp add: Second_def)
  have n: "\<not> is_done 0 None"
    by (simp add: is_done_def)
  show ?thesis
    using past_deadline_fires_at_once
        [where ParseDuration = example_ParseDuration and query = "Some ''-1s''"
           and rid = "JStr ''req-1''" and ts = JNil and now = 0 and request_ctx = None
           and rt = example_runtime, OF p d]
      p d n
    by (simp add: DefaultQuery_def)
qed

text \<open>
  The claim as stated, that the error is \<open>DeadlineExceeded\<close> and the response a
  timeout for every such context, fails for a request whose own context was canceled
  before the handler ran: the error is \<open>Canceled\<close> and the response the canceled one.
\<close>

theorem past_deadline_canceled_parent_counterexample:
  "example_ParseDuration (DefaultQuery (Some ''-1s'') ''10s'') = Some (- Second) \<and>
   WithTimeout (parent_first example_runtime) (Some (0, Canceled)) Second (- Second) =
     Some (Second, Canceled) \<and>
   ProcessHandler example_runtime example_ParseDuration Second (Some (0, Canceled))
       (JStr ''req-1'') JNil (Some ''-1s'') =
     Some \<lparr>returned_at = Second, written = [demo_canceled (JStr ''req-1'') JNil],
           worker = Ended Second\<rparr> \<and>
   demo_canceled (JStr ''req-1'') JNil \<noteq> demo_timeout (JStr ''req-1'') JNil \<and>
   process_ProcessHandler example_runtime example_ParseDuration Second (Some (0, Canceled))
       (JStr ''req-1'') JNil (Some ''-1s'') =
     Some \<lparr>returned_at = Second,
           written = [process_cancelled (JStr ''req-1'') JNil Canceled],
           worker = BlockedForever\<rparr> \<and>
   process_cancelled (JStr ''req-1'') JNil Canceled \<noteq>
     process_timed_out (JStr ''req-1'') JNil ''-1s''"
proof -
  have p: "example_ParseDuration (DefaultQuery (Some ''-1s'') ''10s'') = Some (- Second)"
    by (simp add: example_ParseDuration_def DefaultQuery_def)
  have c: "WithTimeout (parent_first example_runtime) (Some (0, Canceled)) Second (- Second) =
     Some (Second, Canceled)"
    by (simp add: WithTimeout_def Second_def)
  note demo = ProcessHandler_cases
    [where ParseDuration = example_ParseDuration and query = "Some ''-1s''"
       and rid = "JStr ''req-1''" and ts = JNil, OF p c]
  note proc = process_ProcessHandler_cases
    [where ParseDuration = example_ParseDuration and query = "Some ''-1s''"
       and rid = "JStr ''req-1''" and ts = JNil, OF p c]
  have s: "Second < Second + 5 * Second"
    by (simp add: Second_def)
  have ne: "demo_canceled (JStr ''req-1'') JNil \<noteq> demo_timeout (JStr ''req-1'') JNil"
    "process_cancelled (JStr ''req-1'') JNil Canceled \<noteq>
       process_timed_out (JStr ''req-1'') JNil ''-1s''"
    by (simp_all add: demo_timeout_def demo_canceled_def process_timed_out_def
        process_cancelled_def JSON_def StatusInternalServerError_def
        StatusRequestTimeout_def StatusGatewayTimeout_def)
  show ?thesis
    using p c s ne
    by (simp add: demo proc DefaultQuery_def)
qed

subsection \<open>Handlers that wait on a context only\<close>

text \<open>
  Claim C8. \<open>context.Background()\<close> has fired at no moment, and neither has a
  cancelable context derived from it whose cancel function is not called.
  \<open>LockResponse\<close> returns exactly when its context fires at some moment; on the
  background context it never returns, so \<open>NeverRespondWithGoContextHandler\<close> never
  returns and writes no response.
\<close>

theorem never_respond_blocks_forever:
  "\<not> is_done t Background \<and>
   WithCancel Background now = Background \<and>
   (LockResponse now c = None) = (\<forall>t. \<not> is_done t c) \<and>
   LockResponse now Background = None \<and>
   NeverRespondWithGoContextHandler now rid ts = None"
proof -
  have "(LockResponse now c = None) = (\<forall>t. \<not> is_done t c)"
  proof (cases c)
    case None
    then show ?thesis
      by (simp add: LockResponse_def onlyReturnWhenContextCancelled_def recv_def Done_def
          is_done_def)
  next
    case (Some a)
    obtain tc rc where a: "a = (tc, rc)" by (cases a)
    have "is_done tc c" using Some a by (simp add: is_done_def)
    then show ?thesis
      using Some a
      by (auto simp: LockResponse_def onlyReturnWhenContextCancelled_def recv_def Done_def)
  qed
  then show ?thesis
    by (simp add: NeverRespondWithGoContextHandler_def LockResponse_def
        onlyReturnWhenContextCancelled_def recv_def Done_def Background_def is_done_def
        WithCancel_def)
qed

text \<open>
  Claim C9. In package \<open>process\<close> the worker goroutine reaches its send on the
  unbuffered channel after five seconds whatever the context does. Whenever the
  handler has written the timed-out or the cancelled response, which it does on the
  context branch of its \<open>select\<close>, nothing receives from the channel and the worker
  is blocked forever.
\<close>

theorem process_worker_blocks_forever:
  assumes "ParseDuration (DefaultQuery query ''10s'') = Some d"
    and "process_ProcessHandler rt ParseDuration now request_ctx rid ts query = Some h"
    and "written h = [process_timed_out rid ts (DefaultQuery query ''10s'')] \<or>
         written h = [process_cancelled rid ts err]"
  shows "worker h = BlockedForever"
proof -
  obtain tc r where c: "WithTimeout (parent_first rt) request_ctx now d = Some (tc, r)"
    using WithTimeout_fires by blast
  note proc = process_ProcessHandler_cases
    [where ParseDuration = ParseDuration and query = query and rid = rid and ts = ts,
     OF assms(1) c]
  have ne: "process_ok rid ts (DefaultQuery query ''10s'') \<noteq>
        process_timed_out rid ts (DefaultQuery query ''10s'')"
    "process_ok rid ts (DefaultQuery query ''10s'') \<noteq> process_cancelled rid ts err"
    by (simp_all add: process_ok_def process_timed_out_def process_cancelled_def JSON_def
        StatusOK_def StatusInternalServerError_def StatusGatewayTimeout_def)
  show ?thesis
    using assms(2,3) ne unfolding proc
    by (auto split: if_splits)
qed

theorem process_worker_blocks_forever_witness:
  "example_ParseDuration (DefaultQuery (Some ''2s'') ''10s'') = Some (2 * Second) \<and>
   process_ProcessHandler example_runtime example_ParseDuration 0 None (JStr ''req-1'') JNil
       (Some ''2s'') =
     Some \<lparr>returned_at = 2 * Second,
           written = [process_timed_out (JStr ''req-1'') JNil (DefaultQuery (Some ''2s'') ''10s'')],
           worker = BlockedForever\<rparr> \<and>
   worker (the (process_ProcessHandler example_runtime example_ParseDuration 0 None
       (JStr ''req-1'') JNil (Some ''2s''))) = BlockedForever"
proof -
  have p: "example_ParseDuration (DefaultQuery (Some ''2s'') ''10s'') = Some (2 * Second)"
    by (simp add: example_ParseDuration_def DefaultQuery_def)
  have c: "WithTimeout (parent_first example_runtime) None 0 (2 * Second) =
     Some (2 * Second, DeadlineExceeded)"
    by (simp add: WithTimeout_def Second_def)
  have s: "2 * Second < 0 + 5 * Second"
    by (simp add: Second_def)
  note proc = process_ProcessHandler_cases
    [where ParseDuration = example_ParseDuration and query = "Some ''2s''"
       and rid = "JStr ''req-1''" and ts = JNil, OF p c]
  have e: "process_ProcessHandler example_runtime example_ParseDuration 0 None (JStr ''req-1'') JNil
       (Some ''2s'') =
     Some \<lparr>returned_at = 2 * Second,
           written = [process_timed_out (JStr ''req-1'') JNil (DefaultQuery (Some ''2s'') ''10s'')],
           worker = BlockedForever\<rparr>"
    using s by (simp add: proc)
  have "worker \<lparr>returned_at = 2 * Second,
           written = [process_timed_out (JStr ''req-1'') JNil (DefaultQuery (Some ''2s'') ''10s'')],
           worker = BlockedForever\<rparr> = BlockedForever"
    by (rule process_worker_blocks_forever
        [where ParseDuration = example_ParseDuration and query = "Some ''2s''"
           and err = Canceled, OF p e]) simp
  then show ?thesis
    using p e by simp
qed

text \<open>
  Claim C10. \<open>NeverRespondWithTimeoutContextHandler\<close> always returns: its context
  fires at some moment no later than two seconds after the call, \<open>LockResponse\<close>
  returns at that moment, and the handler then writes the \<open>200\<close> response
  "Process completed successfully", whatever the context's error. With a request
  context that never fires this happens at exactly two seconds.
\<close>

theorem timeout_handler_always_responds:
  "(\<exists>t r. WithTimeout (parent_first rt) request_ctx now (2 * Second) = Some (t, r) \<and>
      now \<le> t \<and> t \<le> now + 2 * Second \<and>
      LockResponse now (WithTimeout (parent_first rt) request_ctx now (2 * Second)) = Some t \<and>
      NeverRespondWithTimeoutContextHandler rt now request_ctx rid ts =
        Some \<lparr>returned_at = t, written = [completed_ok rid ts], worker = NotStarted\<rparr>) \<and>
   NeverRespondWithTimeoutContextHandler rt now Background rid ts =
     Some \<lparr>returned_at = now + 2 * Second,
           written =
             [JSON StatusOK
                [(''status'', JStr ''OK''),
                 (''requestID'', rid),
                 (''timestamp'', ts),
                 (''message'', JStr ''Process completed successfully'')]],
           worker = NotStarted\<rparr>"
proof -
  obtain t r where c: "WithTimeout (parent_first rt) request_ctx now (2 * Second) = Some (t, r)"
    and n: "now \<le> t" and u: "t \<le> max now (now + 2 * Second)"
    using WithTimeout_fires by blast
  have u': "t \<le> now + 2 * Second"
    using u by (simp add: Second_def max_def)
  have l: "LockResponse now (Some (t, r)) = Some t"
    using n by (simp add: LockResponse_def onlyReturnWhenContextCancelled_def recv_def Done_def
        max_def)
  have b: "WithTimeout (parent_first rt) Background now (2 * Second) =
      Some (now + 2 * Second, DeadlineExceeded)"
    by (simp add: WithTimeout_def Background_def Second_def)
  have lb: "LockResponse now (Some (now + 2 * Second, DeadlineExceeded)) = Some (now + 2 * Second)"
    by (simp add: LockResponse_def onlyReturnWhenContextCancelled_def recv_def Done_def
        Second_def)
  show ?thesis
    using n u'
    by (simp add: NeverRespondWithTimeoutContextHandler_def Let_def c l b lb completed_ok_def)
qed

end
